theory Spec2Isabelle
  imports Complex_Main "HOL-Library.Code_Target_Numeral"
begin


section \<open>JavaScript built-ins the two scripts call\<close>

text \<open>
  The scripts \<^verbatim>\<open>index.js\<close> (the Controller, on the page) and \<^verbatim>\<open>worker.js\<close> (the Renderer,
  in the worker) are glue around built-ins of the language and of the d3 and d3fc libraries.
  The built-ins are modelled as far as the scripts use them. Strings are ASCII: the two
  strings read, \<^verbatim>\<open>location.search\<close> and \<^verbatim>\<open>location.hash\<close>, are percent-encoded by the
  browser.
\<close>

datatype error = TypeError | RangeError

text \<open>White space that \<^verbatim>\<open>parseInt\<close> and \<^verbatim>\<open>Number\<close> strip: TAB, LF, VT, FF, CR and SP.\<close>

definition is_space :: "char \<Rightarrow> bool" where
  "is_space c = (let n = (of_char c :: nat) in (9 \<le> n \<and> n \<le> 13) \<or> n = 32)"

definition dec_digit :: "char \<Rightarrow> nat option" where
  "dec_digit c =
     (let n = (of_char c :: nat) in if 48 \<le> n \<and> n \<le> 57 then Some (n - 48) else None)"

definition hex_digit :: "char \<Rightarrow> nat option" where
  "hex_digit c =
     (let n = (of_char c :: nat) in
      if 48 \<le> n \<and> n \<le> 57 then Some (n - 48)
      else if 65 \<le> n \<and> n \<le> 70 then Some (n - 55)
      else if 97 \<le> n \<and> n \<le> 102 then Some (n - 87)
      else None)"

definition is_digit :: "(char \<Rightarrow> nat option) \<Rightarrow> char \<Rightarrow> bool" where
  "is_digit dig c = (dig c \<noteq> None)"

text \<open>The value of a run of digits, most significant first.\<close>

definition digits_value :: "(char \<Rightarrow> nat option) \<Rightarrow> nat \<Rightarrow> string \<Rightarrow> nat" where
  "digits_value dig radix z = foldl (\<lambda>a c. a * radix + (case dig c of None \<Rightarrow> 0 | Some d \<Rightarrow> d)) 0 z"

text \<open>
  \<^verbatim>\<open>parseInt(string)\<close> with no radix: leading white space is dropped, then a sign, then a
  \<^verbatim>\<open>0x\<close> or \<^verbatim>\<open>0X\<close> prefix (which selects radix 16); the longest run of digits that follows
  is the number, and an empty run gives NaN, here \<open>None\<close>. \<open>Some i\<close> is the mathematical value
  of the digits. The Number that JavaScript returns is that value rounded to a double: the
  rounding is monotone and leaves every integer below \<open>2^53\<close> as it is, so the comparisons
  that \<open>array_length\<close> makes give the same answer on both, and a length that is accepted is
  exact.
\<close>

definition parseInt :: "string \<Rightarrow> int option" where
  "parseInt string =
     (let s = dropWhile is_space string;
          sign = (if take 1 s = ''-'' then - 1 else 1 :: int);
          s1 = (if take 1 s = ''-'' \<or> take 1 s = ''+'' then drop 1 s else s);
          hex = (take 2 s1 = ''0x'' \<or> take 2 s1 = ''0X'');
          s2 = (if hex then drop 2 s1 else s1);
          dig = (if hex then hex_digit else dec_digit);
          z = takeWhile (is_digit dig) s2
      in if z = [] then None
         else Some (sign * int (digits_value dig (if hex then 16 else 10) z)))"

text \<open>
  \<^verbatim>\<open>Array.from({ length: n }, f)\<close> first turns \<open>n\<close> into a length (NaN and every value
  below 1 become 0), then constructs the array with \<^verbatim>\<open>new Array(length)\<close>, which throws a
  RangeError unless the length is below \<open>2^32\<close>.
\<close>

definition array_length :: "int option \<Rightarrow> error + nat" where
  "array_length n =
     (case n of
        None \<Rightarrow> Inr 0
      | Some i \<Rightarrow> if i \<le> 0 then Inr 0
                  else if 4294967296 \<le> i then Inl RangeError
                  else Inr (nat i))"

text \<open>The decimal digits of a natural number, as \<^verbatim>\<open>String(n)\<close> writes an integer.\<close>

definition digit_char :: "nat \<Rightarrow> char" where
  "digit_char d = ''0123456789'' ! d"

fun decimal :: "nat \<Rightarrow> string" where
  "decimal n = (if n < 10 then [digit_char n] else decimal (n div 10) @ [digit_char (n mod 10)])"

declare decimal.simps [simp del]

text \<open>
  \<^verbatim>\<open>Number(string)\<close>. A Number is NaN, an infinity or a finite double. The model computes
  the double only where it is the exact value of the text: a run of decimal digits with an
  optional sign, of magnitude below \<open>2^53\<close>. Every other text that the grammar of numeric
  strings accepts (a fraction, an exponent, a \<^verbatim>\<open>0x\<close>, \<^verbatim>\<open>0o\<close> or \<^verbatim>\<open>0b\<close> literal, a larger
  magnitude) is \<open>OtherNum\<close>: a number whose value is not computed here. A text the grammar
  rejects is NaN, and that part is the full grammar.
\<close>

datatype jsnum = NaN | PosInf | NegInf | IntNum int | OtherNum

definition trim :: "string \<Rightarrow> string" where
  "trim s = rev (dropWhile is_space (rev (dropWhile is_space s)))"

definition oct_digit :: "char \<Rightarrow> nat option" where
  "oct_digit c =
     (let n = (of_char c :: nat) in if 48 \<le> n \<and> n \<le> 55 then Some (n - 48) else None)"

definition bin_digit :: "char \<Rightarrow> nat option" where
  "bin_digit c =
     (let n = (of_char c :: nat) in if 48 \<le> n \<and> n \<le> 49 then Some (n - 48) else None)"

definition all_digits :: "(char \<Rightarrow> nat option) \<Rightarrow> string \<Rightarrow> bool" where
  "all_digits dig s = (s \<noteq> [] \<and> list_all (is_digit dig) s)"

definition nondecimal_literal :: "string \<Rightarrow> bool" where
  "nondecimal_literal s =
     (let p = take 2 s; ds = drop 2 s in
      ((p = ''0x'' \<or> p = ''0X'') \<and> all_digits hex_digit ds) \<or>
      ((p = ''0o'' \<or> p = ''0O'') \<and> all_digits oct_digit ds) \<or>
      ((p = ''0b'' \<or> p = ''0B'') \<and> all_digits bin_digit ds))"

text \<open>Digits with an optional fraction, or a fraction alone: \<^verbatim>\<open>12\<close>, \<^verbatim>\<open>12.\<close>, \<^verbatim>\<open>12.5\<close>, \<^verbatim>\<open>.5\<close>.\<close>

definition mantissa :: "string \<Rightarrow> bool" where
  "mantissa s =
     (let ip = takeWhile (is_digit dec_digit) s; rest = dropWhile (is_digit dec_digit) s in
      if rest = [] then ip \<noteq> []
      else take 1 rest = ''.'' \<and> list_all (is_digit dec_digit) (drop 1 rest) \<and>
           (ip \<noteq> [] \<or> drop 1 rest \<noteq> []))"

text \<open>What follows the \<^verbatim>\<open>e\<close> of an exponent: digits with an optional sign.\<close>

definition exponent :: "string \<Rightarrow> bool" where
  "exponent s =
     all_digits dec_digit (if take 1 s = ''+'' \<or> take 1 s = ''-'' then drop 1 s else s)"

definition not_e :: "char \<Rightarrow> bool" where
  "not_e c = (c \<noteq> CHR ''e'' \<and> c \<noteq> CHR ''E'')"

definition unsigned_decimal :: "string \<Rightarrow> bool" where
  "unsigned_decimal s =
     (let rest = dropWhile not_e s in
      mantissa (takeWhile not_e s) \<and> (rest = [] \<or> exponent (drop 1 rest)))"

definition ToNumber :: "string \<Rightarrow> jsnum" where
  "ToNumber string =
     (let s = trim string;
          neg = (take 1 s = ''-'');
          u = (if take 1 s = ''-'' \<or> take 1 s = ''+'' then drop 1 s else s)
      in if s = [] then IntNum 0
         else if nondecimal_literal s then OtherNum
         else if u = ''Infinity'' then (if neg then NegInf else PosInf)
         else if all_digits dec_digit u then
           (let v = digits_value dec_digit 10 u in
            if v < 2 ^ 53 then IntNum (if neg then - int v else int v) else OtherNum)
         else if unsigned_decimal u then OtherNum
         else NaN)"

text \<open>
  The text a template literal substitutes for a Number. \<open>None\<close>: the model does not compute
  the text (the number is \<open>OtherNum\<close>, or an integer it never produces).
\<close>

definition ToString :: "jsnum \<Rightarrow> string option" where
  "ToString n =
     (case n of
        NaN \<Rightarrow> Some ''NaN''
      | PosInf \<Rightarrow> Some ''Infinity''
      | NegInf \<Rightarrow> Some ''-Infinity''
      | IntNum i \<Rightarrow>
          if \<bar>i\<bar> < 2 ^ 53 then Some ((if i < 0 then ''-'' else []) @ decimal (nat \<bar>i\<bar>))
          else None
      | OtherNum \<Rightarrow> None)"


section \<open>Messages from the Controller to the Renderer\<close>

text \<open>
  A drawing surface: the \<^verbatim>\<open>canvas\<close> element of the page, and the OffscreenCanvas that
  \<^verbatim>\<open>transferControlToOffscreen\<close> makes of it, which starts with the element's dimensions.
  \<open>canvas_id\<close> tells one surface from another. Dimensions are pixel counts. \<open>webgl_ok\<close> says
  whether \<^verbatim>\<open>getContext('webgl')\<close> gives a context for the surface: where the browser cannot
  make one, it gives null.
\<close>

record canvas =
  canvas_id :: nat
  canvas_width :: nat
  canvas_height :: nat
  webgl_ok :: bool

text \<open>
  The object that \<^verbatim>\<open>postMessage\<close> carries. The listener of the worker destructures the
  three properties and tests each with \<^verbatim>\<open>!= null\<close>: a property that is missing, undefined
  or null is \<open>None\<close>.
\<close>

record message =
  offscreenCanvas :: "canvas option"
  width :: "nat option"
  height :: "nat option"

definition transfer_message :: "canvas \<Rightarrow> message" where
  "transfer_message c = \<lparr>offscreenCanvas = Some c, width = None, height = None\<rparr>"

definition size_message :: "nat \<times> nat \<Rightarrow> message" where
  "size_message d = \<lparr>offscreenCanvas = None, width = Some (fst d), height = Some (snd d)\<rparr>"


section \<open>The Controller: index.js\<close>

text \<open>
  The state of the page script. \<open>search\<close> is \<^verbatim>\<open>location.search\<close>; \<open>transferable\<close> says
  whether the canvas element has the method \<^verbatim>\<open>transferControlToOffscreen\<close>; \<open>worker\<close> is the
  variable of that name, null or the Worker made for the URL \<^verbatim>\<open>worker.js#n\<close>, kept as the
  number \<open>n\<close> substituted in the URL; \<open>posted\<close> are the messages given to
  \<^verbatim>\<open>worker.postMessage\<close> and \<open>alerts\<close> the texts given to \<^verbatim>\<open>alert\<close>, oldest first.
\<close>

record controller =
  search :: string
  transferable :: bool
  page_canvas :: canvas
  worker :: "jsnum option"
  posted :: "message list"
  alerts :: "string list"

text \<open>
  Lines 1 to 5. With an empty \<^verbatim>\<open>location.search\<close> the script assigns 10000 to it, which
  loads the page again with the query \<^verbatim>\<open>?10000\<close>; the state is that of the page which
  stays.
\<close>

definition index_js :: "string \<Rightarrow> bool \<Rightarrow> canvas \<Rightarrow> controller" where
  "index_js location_search has_transfer cv =
     \<lparr>search = (if location_search = [] then ''?10000'' else location_search),
      transferable = has_transfer,
      page_canvas = cv,
      worker = None,
      posted = [],
      alerts = []\<rparr>"

definition unsupported :: string where
  "unsupported = ''It looks like OffscreenCanvas isn't supported by your browser''"

text \<open>
  Lines 10 to 17, the body of \<^verbatim>\<open>if (worker == null)\<close>: the Worker is made, the missing
  method is reported with \<^verbatim>\<open>alert\<close>, the method is called and its result is posted with
  the transfer list. Calling the missing method throws a TypeError. The result is the
  exception that ended the body, if one did, and the state the body left.
\<close>

definition create_worker :: "controller \<Rightarrow> error option \<times> controller" where
  "create_worker c =
     (let c1 = c\<lparr>worker := Some (ToNumber (drop 1 (search c)))\<rparr>;
          c2 = (if \<not> transferable c1 then c1\<lparr>alerts := alerts c1 @ [unsupported]\<rparr> else c1)
      in if \<not> transferable c2 then (Some TypeError, c2)
         else (None, c2\<lparr>posted := posted c2 @ [transfer_message (page_canvas c2)]\<rparr>))"

text \<open>
  The listener of the \<^verbatim>\<open>measure\<close> event, lines 8 to 21; \<open>detail\<close> is the measured width and
  height.
\<close>

definition measure_listener :: "nat \<times> nat \<Rightarrow> controller \<Rightarrow> error option \<times> controller" where
  "measure_listener detail c =
     (case (if worker c = None then create_worker c else (None, c)) of
        (Some e, c1) \<Rightarrow> (Some e, c1)
      | (None, c1) \<Rightarrow> (None, c1\<lparr>posted := posted c1 @ [size_message detail]\<rparr>))"



text \<open>The \<^verbatim>\<open>location.hash\<close> that the worker of \<^verbatim>\<open>worker.js#n\<close> reads.\<close>

definition worker_hash :: "jsnum \<Rightarrow> string option" where
  "worker_hash n = map_option (\<lambda>t. ''#'' @ t) (ToString n)"


section \<open>The Renderer: worker.js\<close>

subsection \<open>The data\<close>

record point =
  pt_x :: real
  pt_y :: real
  pt_size :: real

text \<open>
  The random numbers are an input: \<open>draws k\<close> are the three numbers that the \<open>k\<close>-th call of
  the callback of \<^verbatim>\<open>Array.from\<close> gets from \<^verbatim>\<open>randomNormal\<close>, \<^verbatim>\<open>randomNormal\<close> and
  \<^verbatim>\<open>randomLogNormal\<close>.
\<close>

type_synonym draws = "nat \<Rightarrow> real \<times> real \<times> real"

definition new_point :: "real \<times> real \<times> real \<Rightarrow> point" where
  "new_point d = \<lparr>pt_x = fst d, pt_y = fst (snd d), pt_size = snd (snd d) * 10\<rparr>"

text \<open>Lines 26 to 30; \<open>hash\<close> is \<^verbatim>\<open>location.hash\<close>.\<close>

definition generate_data :: "draws \<Rightarrow> string \<Rightarrow> error + point list" where
  "generate_data rnd hash =
     (case array_length (parseInt (drop 1 hash)) of
        Inl e \<Rightarrow> Inl e
      | Inr n \<Rightarrow> Inr (map (\<lambda>k. new_point (rnd k)) [0..<n]))"

subsection \<open>The colours\<close>

text \<open>The range of the colour scale: \<^verbatim>\<open>d3.schemeAccent\<close>, eight colours.\<close>

definition schemeAccent :: "string list" where
  "schemeAccent =
     [''#7fc97f'', ''#beaed4'', ''#fdc086'', ''#ffff99'',
      ''#386cb0'', ''#f0027f'', ''#bf5b17'', ''#666666'']"

fun index_of :: "'a \<Rightarrow> 'a list \<Rightarrow> nat option" where
  "index_of a [] = None"
| "index_of a (b # bs) = (if a = b then Some 0 else map_option Suc (index_of a bs))"

text \<open>
  \<^verbatim>\<open>d3.scaleOrdinal(d3.schemeAccent)\<close> is a function with a memory, its domain: the values it
  has been called with, in the order of their first call. A value that is new is added at the
  end; the colour of a value is the entry of the range at the value's place in the domain,
  modulo the length of the range. The result is the colour and the domain after the call.
\<close>

definition colorScale :: "nat list \<Rightarrow> nat \<Rightarrow> string \<times> nat list" where
  "colorScale domain i =
     (case index_of i domain of
        Some k \<Rightarrow> (schemeAccent ! (k mod length schemeAccent), domain)
      | None \<Rightarrow> (schemeAccent ! (length domain mod length schemeAccent), domain @ [i]))"

definition hex_byte :: "char \<Rightarrow> char \<Rightarrow> nat option" where
  "hex_byte a b =
     (case hex_digit a of
        None \<Rightarrow> None
      | Some h \<Rightarrow> (case hex_digit b of None \<Rightarrow> None | Some l \<Rightarrow> Some (16 * h + l)))"

text \<open>
  \<^verbatim>\<open>d3.color(c).rgb()\<close> on the form \<^verbatim>\<open>#rrggbb\<close>, the form of every colour of the range: the
  three channels and the opacity 1. \<open>None\<close> is the null of \<^verbatim>\<open>d3.color\<close>; the other forms
  that d3 reads are not modelled.
\<close>

definition d3_color :: "string \<Rightarrow> (nat \<times> nat \<times> nat \<times> real) option" where
  "d3_color c =
     (if length c = 7 \<and> c ! 0 = CHR ''#'' then
        (case hex_byte (c ! 1) (c ! 2) of
           None \<Rightarrow> None
         | Some r \<Rightarrow>
             (case hex_byte (c ! 3) (c ! 4) of
                None \<Rightarrow> None
              | Some g \<Rightarrow>
                  (case hex_byte (c ! 5) (c ! 6) of
                     None \<Rightarrow> None
                   | Some b \<Rightarrow> Some (r, g, b, 1))))
      else None)"

text \<open>Lines 49 to 52. Reading a property of null throws a TypeError.\<close>

definition webglColor :: "string \<Rightarrow> error + real list" where
  "webglColor color =
     (case d3_color color of
        None \<Rightarrow> Inl TypeError
      | Some (r, g, b, opacity) \<Rightarrow> Inr [real r / 255, real g / 255, real b / 255, opacity])"

text \<open>
  Lines 54 to 57: \<^verbatim>\<open>webglFillColor\<close> calls the function given to \<^verbatim>\<open>value\<close> once for each
  element of the data, with the element's index, from the first element to the last. The
  elements are not read, so the indices stand for them. The result is the colours, and the
  domain of the colour scale after the calls.
\<close>

fun fill_values :: "nat list \<Rightarrow> nat list \<Rightarrow> (error + real list) list \<times> nat list" where
  "fill_values [] domain = ([], domain)"
| "fill_values (i # js) domain =
     (case colorScale domain i of
        (c, domain1) \<Rightarrow>
          (case fill_values js domain1 of
             (cs, domain2) \<Rightarrow> (webglColor c # cs, domain2)))"

definition fillColor :: "nat \<Rightarrow> (error + real list) list" where
  "fillColor n = fst (fill_values [0..<n] [])"

subsection \<open>The state of the worker\<close>

text \<open>
  A WebGL context: its canvas and the rectangle last given to \<^verbatim>\<open>gl.viewport\<close>, which for a new
  context is the whole canvas. \<^verbatim>\<open>getContext('webgl')\<close> gives the context of the canvas, or
  null, here \<open>None\<close>.
\<close>

record webgl =
  gl_canvas :: canvas
  gl_viewport :: "nat \<times> nat \<times> nat \<times> nat"

definition getContext :: "canvas \<Rightarrow> webgl option" where
  "getContext c =
     (if webgl_ok c
      then Some \<lparr>gl_canvas = c, gl_viewport = (0, 0, canvas_width c, canvas_height c)\<rparr>
      else None)"

text \<open>What the worker does that is seen outside it, in the order in which it does it.\<close>

datatype action =
    Post string
  | UseContext canvas
  | Draw "real \<times> real" "real \<times> real" nat
  | RequestFrame
  | SetWidth nat
  | SetHeight nat
  | Viewport nat nat nat nat

text \<open>
  The variables of the script: the data, the domains of \<^verbatim>\<open>xScale\<close> and \<^verbatim>\<open>yScale\<close>, the
  context held by \<^verbatim>\<open>series\<close> (null until \<^verbatim>\<open>series.context(gl)\<close> gives it one), the number of callbacks
  given to \<^verbatim>\<open>requestAnimationFrame\<close> that have not run yet, and what the worker has done so
  far. \<open>Draw\<close> is the call \<^verbatim>\<open>series(data)\<close>, with the two domains and the number of points
  handed to it; what the library does in the call is not modelled.
\<close>

record renderer =
  data :: "point list"
  xScale :: "real \<times> real"
  yScale :: "real \<times> real"
  series_context :: "webgl option"
  frames_requested :: nat
  trace :: "action list"

text \<open>
  The state in which the script ends, at line 63, waiting for messages: the data it has
  generated, the domains of lines 34 and 36, no context, and its four reports to the page.
\<close>

definition awaiting_canvas :: "point list \<Rightarrow> renderer" where
  "awaiting_canvas d =
     \<lparr>data = d, xScale = (- 5, 5), yScale = (- 5, 5), series_context = None,
      frames_requested = 0,
      trace = [Post ''Worker initialised. Importing scripts...'',
               Post ''Scripts imported. Generating data...'',
               Post ''Data generated. Configuring rendering...'',
               Post ''Rendering configured. Awaiting canvas...'']\<rparr>"

text \<open>The script from its first line to line 63. An exception at line 26 ends it.\<close>

definition worker_js :: "draws \<Rightarrow> string \<Rightarrow> error + renderer" where
  "worker_js rnd hash =
     (case generate_data rnd hash of
        Inl e \<Rightarrow> Inl e
      | Inr d \<Rightarrow> Inr (awaiting_canvas d))"

subsection \<open>The render loop\<close>

text \<open>Line 66; \<open>now\<close> is \<^verbatim>\<open>Date.now()\<close>, in milliseconds. Doubles are modelled as reals.\<close>

definition ease :: "int \<Rightarrow> real" where
  "ease now = 5 * (0.51 + 0.49 * sin (real_of_int now / 1000))"

text \<open>Lines 65 to 72, one iteration.\<close>

definition render :: "int \<Rightarrow> renderer \<Rightarrow> renderer" where
  "render now s =
     (let e = ease now;
          s1 = s\<lparr>xScale := (- e, e)\<rparr>;
          s2 = s1\<lparr>yScale := (- e, e)\<rparr>;
          s3 = s2\<lparr>trace := trace s2 @ [Draw (xScale s2) (yScale s2) (length (data s2))]\<rparr>;
          s4 = s3\<lparr>frames_requested := frames_requested s3 + 1,
                  trace := trace s3 @ [RequestFrame]\<rparr>
      in s4\<lparr>trace := trace s4 @ [Post ''frame'']\<rparr>)"

subsection \<open>The message listener\<close>

text \<open>
  Lines 75 to 80, the body of \<^verbatim>\<open>if (offscreenCanvas != null)\<close>. What \<^verbatim>\<open>getContext\<close> gives
  is handed to \<^verbatim>\<open>series.context\<close> as it is, a context or null, and \<^verbatim>\<open>render\<close> is called.
\<close>

definition receive_canvas :: "int \<Rightarrow> canvas \<Rightarrow> renderer \<Rightarrow> renderer" where
  "receive_canvas now c s =
     (let s1 = s\<lparr>trace := trace s @ [Post ''Canvas received. Rendering...'']\<rparr>;
          gl = getContext c;
          s2 = s1\<lparr>series_context := gl, trace := trace s1 @ [UseContext c]\<rparr>
      in render now s2)"

text \<open>
  Lines 82 to 87, the body of \<^verbatim>\<open>if (width != null && height != null)\<close>. With no context,
  \<^verbatim>\<open>series.context()\<close> is null and reading \<^verbatim>\<open>gl.canvas\<close> throws a TypeError. The viewport is
  set from the dimensions read back from the canvas.
\<close>

definition resize :: "nat \<Rightarrow> nat \<Rightarrow> renderer \<Rightarrow> error option \<times> renderer" where
  "resize w h s =
     (case series_context s of
        None \<Rightarrow> (Some TypeError, s)
      | Some gl \<Rightarrow>
          (let gl1 = gl\<lparr>gl_canvas := (gl_canvas gl)\<lparr>canvas_width := w\<rparr>\<rparr>;
               gl2 = gl1\<lparr>gl_canvas := (gl_canvas gl1)\<lparr>canvas_height := h\<rparr>\<rparr>;
               gl3 = gl2\<lparr>gl_viewport :=
                        (0, 0, canvas_width (gl_canvas gl2), canvas_height (gl_canvas gl2))\<rparr>
           in (None, s\<lparr>series_context := Some gl3,
                        trace := trace s @ [SetWidth w, SetHeight h,
                          Viewport 0 0 (canvas_width (gl_canvas gl2))
                            (canvas_height (gl_canvas gl2))]\<rparr>)))"

text \<open>
  The listener of the \<^verbatim>\<open>message\<close> event, lines 74 to 88. The result is the exception that
  ended the call, if one did, and the state the call left.
\<close>

definition message_listener :: "int \<Rightarrow> message \<Rightarrow> renderer \<Rightarrow> error option \<times> renderer" where
  "message_listener now m s =
     (let s1 = (case offscreenCanvas m of None \<Rightarrow> s | Some c \<Rightarrow> receive_canvas now c s)
      in case width m of
           None \<Rightarrow> (None, s1)
         | Some w \<Rightarrow> (case height m of None \<Rightarrow> (None, s1) | Some h \<Rightarrow> resize w h s1))"

subsection \<open>The events of the worker\<close>

text \<open>
  After the script has run, the worker runs one task at a time: a message from the page, or
  one callback given to \<^verbatim>\<open>requestAnimationFrame\<close> (when none is waiting, no callback runs).
  Each task comes with the time that \<^verbatim>\<open>Date.now()\<close> gives in it. An exception ends its task
  only.
\<close>

datatype event = Message message | AnimationFrame

definition task :: "int \<Rightarrow> event \<Rightarrow> renderer \<Rightarrow> error option \<times> renderer" where
  "task now e s =
     (case e of
        Message m \<Rightarrow> message_listener now m s
      | AnimationFrame \<Rightarrow>
          (None, if frames_requested s = 0 then s
                 else render now (s\<lparr>frames_requested := frames_requested s - 1\<rparr>)))"

fun tasks :: "(int \<times> event) list \<Rightarrow> renderer \<Rightarrow> renderer" where
  "tasks [] s = s"
| "tasks (e # es) s = tasks es (snd (task (fst e) (snd e) s))"

text \<open>The exceptions thrown in a run, oldest first.\<close>

fun uncaught :: "(int \<times> event) list \<Rightarrow> renderer \<Rightarrow> error list" where
  "uncaught [] s = []"
| "uncaught (e # es) s =
     (case task (fst e) (snd e) s of
        (None, s1) \<Rightarrow> uncaught es s1
      | (Some x, s1) \<Rightarrow> x # uncaught es s1)"

subsection \<open>Reading a run\<close>

text \<open>An event that hands over no canvas: a frame, or a message without the property.\<close>

definition no_canvas :: "int \<times> event \<Rightarrow> bool" where
  "no_canvas e = (case snd e of Message m \<Rightarrow> offscreenCanvas m = None | AnimationFrame \<Rightarrow> True)"

text \<open>The size that an event brings: a message with both a width and a height.\<close>

definition size_of :: "int \<times> event \<Rightarrow> (nat \<times> nat) option" where
  "size_of e =
     (case snd e of
        AnimationFrame \<Rightarrow> None
      | Message m \<Rightarrow>
          (case width m of
             None \<Rightarrow> None
           | Some w \<Rightarrow> (case height m of None \<Rightarrow> None | Some h \<Rightarrow> Some (w, h))))"

definition sizes :: "(int \<times> event) list \<Rightarrow> (nat \<times> nat) list" where
  "sizes es = List.map_filter size_of es"

text \<open>Draws that are all zero, for examples.\<close>

definition zero_draws :: draws where
  "zero_draws k = (0, 0, 0)"


text \<open>
  Two surfaces of 300 by 150 pixels for examples: one for which \<^verbatim>\<open>getContext('webgl')\<close> gives
  a context, and one for which it gives null.
\<close>

definition webgl_canvas :: canvas where
  "webgl_canvas = \<lparr>canvas_id = 1, canvas_width = 300, canvas_height = 150, webgl_ok = True\<rparr>"

definition plain_canvas :: canvas where
  "plain_canvas = \<lparr>canvas_id = 2, canvas_width = 300, canvas_height = 150, webgl_ok = False\<rparr>"


section \<open>The page and its worker\<close>

text \<open>
  The worker that the page has made, after its script has run: \<open>None\<close> when the page has made
  none, or when the model does not compute the text of its \<^verbatim>\<open>location.hash\<close>.
\<close>

definition page_worker :: "draws \<Rightarrow> controller \<Rightarrow> (error + renderer) option" where
  "page_worker rnd c =
     (case worker c of
        None \<Rightarrow> None
      | Some n \<Rightarrow> map_option (worker_js rnd) (worker_hash n))"


section \<open>Decimal digits are read back\<close>

lemma dec_digit_digit_char: "d < 10 \<Longrightarrow> dec_digit (digit_char d) = Some d"
proof -
  assume "d < 10"
  then have "d = 0 \<or> d = 1 \<or> d = 2 \<or> d = 3 \<or> d = 4 \<or> d = 5 \<or> d = 6 \<or> d = 7 \<or> d = 8 \<or> d = 9"
    by arith
  then show ?thesis
    by (elim disjE) (simp_all add: digit_char_def dec_digit_def)
qed

lemma is_digit_digit_char: "d < 10 \<Longrightarrow> is_digit dec_digit (digit_char d)"
  by (simp add: is_digit_def dec_digit_digit_char)

lemma decimal_not_Nil: "decimal n \<noteq> []"
  by (subst decimal.simps) simp

lemma decimal_digits: "list_all (is_digit dec_digit) (decimal n)"
proof (induction n rule: decimal.induct)
  case (1 n)
  show ?case
  proof (cases "n < 10")
    case True
    then show ?thesis
      by (subst decimal.simps) (simp add: is_digit_digit_char)
  next
    case False
    with 1 show ?thesis
      by (subst decimal.simps) (simp add: is_digit_digit_char)
  qed
qed

lemma digits_value_snoc:
  "digits_value dig radix (z @ [c]) =
     digits_value dig radix z * radix + (case dig c of None \<Rightarrow> 0 | Some d \<Rightarrow> d)"
  by (simp add: digits_value_def)

lemma digits_value_decimal: "digits_value dec_digit 10 (decimal n) = n"
proof (induction n rule: decimal.induct)
  case (1 n)
  show ?case
  proof (cases "n < 10")
    case True
    then show ?thesis
      by (subst decimal.simps) (simp add: digits_value_def dec_digit_digit_char)
  next
    case False
    with 1 show ?thesis
      by (subst decimal.simps) (simp add: digits_value_snoc dec_digit_digit_char)
  qed
qed

lemma dec_digit_char:
  assumes "is_digit dec_digit c"
  shows "\<not> is_space c" and "c \<noteq> CHR ''-''" and "c \<noteq> CHR ''+''"
    and "c \<noteq> CHR ''x''" and "c \<noteq> CHR ''X''"
  using assms by (auto simp: is_digit_def dec_digit_def is_space_def Let_def split: if_splits)

lemma parseInt_digits:
  assumes "z \<noteq> []" and "list_all (is_digit dec_digit) z"
  shows "parseInt z = Some (int (digits_value dec_digit 10 z))"
proof -
  from assms obtain a zs where z: "z = a # zs" and a: "is_digit dec_digit a"
    by (cases z) auto
  have f1: "dropWhile is_space z = z"
    using dec_digit_char(1)[OF a] by (simp add: z)
  have f2: "take 1 z \<noteq> ''-''" "take 1 z \<noteq> ''+''"
    using dec_digit_char(2,3)[OF a] by (simp_all add: z)
  have f3: "take 2 z \<noteq> ''0x''" "take 2 z \<noteq> ''0X''"
    using assms(2) dec_digit_char(4,5) by (cases zs; auto simp: z)+
  have f4: "takeWhile (is_digit dec_digit) z = z"
    using assms(2) by (simp add: list_all_iff)
  show ?thesis
    unfolding parseInt_def Let_def f1 using f2 f3 assms(1) by (simp add: f4)
qed

lemma parseInt_decimal: "parseInt (decimal n) = Some (int n)"
  by (simp add: parseInt_digits decimal_not_Nil decimal_digits digits_value_decimal)

lemma generate_data_decimal:
  "n < 4294967296 \<Longrightarrow>
   generate_data rnd (CHR ''#'' # decimal n) = Inr (map (\<lambda>k. new_point (rnd k)) [0..<n])"
  by (simp add: generate_data_def parseInt_decimal array_length_def)


section \<open>One iteration of the render loop\<close>

lemma ease_range:
  fixes x :: real
  assumes "- 1 \<le> x" and "x \<le> 1"
  shows "1 / 10 \<le> 5 * (0.51 + 0.49 * x)" and "5 * (0.51 + 0.49 * x) \<le> 5"
  using assms by simp_all

lemma ease_bounds: "1 / 10 \<le> ease now" "ease now \<le> 5" "0 < ease now"
proof -
  show lo: "1 / 10 \<le> ease now" and "ease now \<le> 5"
    unfolding ease_def by (rule ease_range; simp)+
  from lo show "0 < ease now"
    by linarith
qed

lemma render_fields:
  "xScale (render now s) = (- ease now, ease now)"
  "yScale (render now s) = (- ease now, ease now)"
  "series_context (render now s) = series_context s"
  "data (render now s) = data s"
  "frames_requested (render now s) = Suc (frames_requested s)"
  "trace (render now s) =
     trace s @ [Draw (- ease now, ease now) (- ease now, ease now) (length (data s)),
                RequestFrame, Post ''frame'']"
  by (simp_all add: render_def Let_def)

text \<open>
  Claim C7. At every time, the iteration of the render loop leaves both scales with a domain
  whose upper bound is the negation of its lower bound.
\<close>

theorem render_domains_symmetric:
  "snd (xScale (render now s)) = - fst (xScale (render now s)) \<and>
   snd (yScale (render now s)) = - fst (yScale (render now s))"
  by (simp add: render_fields)

text \<open>
  Claim C10. At every time the easing scalar lies between 0.1 and 5 and is positive, and the
  domain that the iteration gives to each scale has a negative lower bound and a positive
  upper bound.
\<close>

theorem ease_positive_domains_proper:
  "1 / 10 \<le> ease now \<and> ease now \<le> 5 \<and> 0 < ease now \<and>
   fst (xScale (render now s)) < 0 \<and> 0 < snd (xScale (render now s)) \<and>
   fst (yScale (render now s)) < 0 \<and> 0 < snd (yScale (render now s))"
  unfolding render_fields fst_conv snd_conv neg_less_0_iff_less
  by (intro conjI ease_bounds)


section \<open>One message with a canvas and a size\<close>

lemma getContext_webgl:
  "webgl_ok c \<Longrightarrow>
   getContext c = Some \<lparr>gl_canvas = c, gl_viewport = (0, 0, canvas_width c, canvas_height c)\<rparr>"
  by (simp add: getContext_def)

lemma getContext_null: "\<not> webgl_ok c \<Longrightarrow> getContext c = None"
  by (simp add: getContext_def)

text \<open>
  Claim C9, as the code has it. A message carries a canvas, a width and a height, and
  \<^verbatim>\<open>getContext('webgl')\<close> gives a context for the canvas. The message is handled in one call of
  the listener, which throws nothing and acts in this order: it reports the canvas, takes
  its WebGL context, runs the first iteration of the render loop (the draw call, the request
  of the next frame, the report of the frame), and only then sets the width and the height
  of that canvas and the viewport.
\<close>

theorem canvas_before_size:
  assumes "webgl_ok c"
  shows "message_listener now \<lparr>offscreenCanvas = Some c, width = Some w, height = Some h\<rparr> s =
     (None,
      s\<lparr>xScale := (- ease now, ease now),
        yScale := (- ease now, ease now),
        series_context :=
          Some \<lparr>gl_canvas = c\<lparr>canvas_width := w, canvas_height := h\<rparr>,
                gl_viewport = (0, 0, w, h)\<rparr>,
        frames_requested := frames_requested s + 1,
        trace := trace s @
          [Post ''Canvas received. Rendering...'', UseContext c,
           Draw (- ease now, ease now) (- ease now, ease now) (length (data s)),
           RequestFrame, Post ''frame'',
           SetWidth w, SetHeight h, Viewport 0 0 w h]\<rparr>)"
  using assms
  by (simp add: message_listener_def receive_canvas_def render_def resize_def getContext_def
        Let_def)

text \<open>Claim C9, an instance: a canvas with a context and the size 800 by 600.\<close>

theorem canvas_before_size_witness:
  "webgl_ok webgl_canvas \<and>
   message_listener 0 \<lparr>offscreenCanvas = Some webgl_canvas, width = Some 800, height = Some 600\<rparr>
       (awaiting_canvas []) =
     (None,
      (awaiting_canvas [])
       \<lparr>xScale := (- ease 0, ease 0),
        yScale := (- ease 0, ease 0),
        series_context :=
          Some \<lparr>gl_canvas = webgl_canvas\<lparr>canvas_width := 800, canvas_height := 600\<rparr>,
                gl_viewport = (0, 0, 800, 600)\<rparr>,
        frames_requested := frames_requested (awaiting_canvas []) + 1,
        trace := trace (awaiting_canvas []) @
          [Post ''Canvas received. Rendering...'', UseContext webgl_canvas,
           Draw (- ease 0, ease 0) (- ease 0, ease 0) (length (data (awaiting_canvas []))),
           RequestFrame, Post ''frame'',
           SetWidth 800, SetHeight 600, Viewport 0 0 800 600]\<rparr>)"
proof -
  have h: "webgl_ok webgl_canvas"
    by (simp add: webgl_canvas_def)
  from canvas_before_size [OF h, of 0 800 600 "awaiting_canvas []"] h show ?thesis
    by blast
qed

text \<open>
  Claim C9 as it is stated fails: for a canvas for which \<^verbatim>\<open>getContext('webgl')\<close> gives null,
  the listener ends with a TypeError and the series has no context, so no width, height or
  viewport has been set.
\<close>

theorem canvas_without_webgl_throws:
  "fst (message_listener 0
          \<lparr>offscreenCanvas = Some plain_canvas, width = Some 800, height = Some 600\<rparr>
          (awaiting_canvas [])) = Some TypeError \<and>
   series_context
     (snd (message_listener 0
             \<lparr>offscreenCanvas = Some plain_canvas, width = Some 800, height = Some 600\<rparr>
             (awaiting_canvas []))) = None"
  by (simp add: message_listener_def receive_canvas_def render_def resize_def getContext_def
        Let_def plain_canvas_def awaiting_canvas_def)


section \<open>A canvas that cannot be transferred\<close>

text \<open>
  Claim C4, as the code has it. When the canvas has no method
  \<^verbatim>\<open>transferControlToOffscreen\<close>, the first measure event gives the warning to \<^verbatim>\<open>alert\<close>
  and then calls the missing method all the same: the listener ends with a TypeError, and
  nothing has been posted to the worker.
\<close>

theorem missing_transfer_throws:
  "fst (measure_listener d (index_js q False cv)) = Some TypeError \<and>
   alerts (snd (measure_listener d (index_js q False cv))) = [unsupported] \<and>
   posted (snd (measure_listener d (index_js q False cv))) = []"
  by (simp add: measure_listener_def create_worker_def index_js_def Let_def)


section \<open>A size before any canvas\<close>

lemma resize_no_context: "series_context s = None \<Longrightarrow> resize w h s = (Some TypeError, s)"
  by (simp add: resize_def)

lemma task_waiting:
  assumes "series_context s = None" and "frames_requested s = 0" and "no_canvas (now, e)"
  shows "snd (task now e s) = s"
  using assms
  by (cases e)
     (simp_all add: task_def no_canvas_def message_listener_def resize_no_context
        split: option.splits)

lemma tasks_waiting:
  assumes "series_context s = None" and "frames_requested s = 0" and "list_all no_canvas es"
  shows "tasks es s = s"
  using assms(3)
proof (induction es)
  case Nil
  show ?case by simp
next
  case (Cons e es)
  then have "snd (task (fst e) (snd e) s) = s"
    using task_waiting [OF assms(1,2), of "fst e" "snd e"] by simp
  with Cons show ?case by simp
qed

lemma awaiting_canvas_fields:
  "series_context (awaiting_canvas d) = None"
  "frames_requested (awaiting_canvas d) = 0"
  "data (awaiting_canvas d) = d"
  by (simp_all add: awaiting_canvas_def)

text \<open>
  Claim C3, as the code has it. While no message has brought a canvas, the worker stays in
  the state in which its script ended: nothing is drawn. A message with a width and a height
  that arrives then is not ignored: the listener throws a TypeError, reading \<^verbatim>\<open>canvas\<close> of
  the null context. The exception ends that call only and leaves the state as it was.
\<close>

theorem size_before_canvas_throws: 
  assumes "list_all no_canvas es"
  shows "task now (Message (size_message d)) (tasks es (awaiting_canvas pts)) =
           (Some TypeError, awaiting_canvas pts)"
  by (simp add: tasks_waiting [OF awaiting_canvas_fields(1,2) assms] task_def
        message_listener_def size_message_def resize_no_context awaiting_canvas_fields)

text \<open>Claim C3, an instance: a frame and a first size, then the size 800 by 600.\<close>

theorem size_before_canvas_throws_witness:
  "list_all no_canvas [(0, AnimationFrame), (1, Message (size_message (640, 480)))] \<and>
   task 2 (Message (size_message (800, 600)))
     (tasks [(0, AnimationFrame), (1, Message (size_message (640, 480)))] (awaiting_canvas [])) =
     (Some TypeError, awaiting_canvas [])"
proof -
  have h: "list_all no_canvas [(0, AnimationFrame), (1, Message (size_message (640, 480)))]"
    by (simp add: no_canvas_def size_message_def)
  from size_before_canvas_throws [OF h] h show ?thesis
    by blast
qed

text \<open>
  Claim C3 as it is stated fails: the worker started with \<^verbatim>\<open>#0\<close> gets the size 800 by 600
  as its first message, and the listener ends with a TypeError.
\<close>

theorem size_before_canvas_not_ignored:
  "worker_js zero_draws ''#0'' = Inr (awaiting_canvas []) \<and>
   fst (message_listener 0 (size_message (800, 600)) (awaiting_canvas [])) = Some TypeError"
  by (simp add: worker_js_def generate_data_def parseInt_def is_space_def dec_digit_def
        is_digit_def digits_value_def array_length_def message_listener_def size_message_def
        resize_def awaiting_canvas_def)


section \<open>The last size wins\<close>

lemma resize_context:
  "series_context s = Some gl \<Longrightarrow>
   resize w h s =
     (None, s\<lparr>series_context :=
                 Some (gl\<lparr>gl_canvas := (gl_canvas gl)\<lparr>canvas_width := w, canvas_height := h\<rparr>,
                          gl_viewport := (0, 0, w, h)\<rparr>),
               trace := trace s @ [SetWidth w, SetHeight h, Viewport 0 0 w h]\<rparr>)"
  by (simp add: resize_def Let_def)

lemma task_sized:
  assumes "series_context s = Some gl" and "no_canvas (now, e)"
  shows "fst (task now e s) = None"
    and "series_context (snd (task now e s)) =
           Some (case size_of (now, e) of
                   None \<Rightarrow> gl
                 | Some d \<Rightarrow>
                     gl\<lparr>gl_canvas := (gl_canvas gl)\<lparr>canvas_width := fst d, canvas_height := snd d\<rparr>,
                        gl_viewport := (0, 0, fst d, snd d)\<rparr>)"
  using assms
  by (cases e;
      simp add: task_def no_canvas_def size_of_def message_listener_def resize_context
        render_fields split: option.splits)+

lemma sizes_Cons:
  "sizes (e # es) = (case size_of e of None \<Rightarrow> sizes es | Some d \<Rightarrow> d # sizes es)"
  unfolding sizes_def by (simp add: List.map_filter_simps)

lemma tasks_sized:
  assumes "list_all no_canvas es" and "series_context s = Some gl"
  shows "uncaught es s = [] \<and>
         series_context (tasks es s) =
           Some (if sizes es = [] then gl
                 else gl\<lparr>gl_canvas := (gl_canvas gl)\<lparr>canvas_width := fst (last (sizes es)),
                                                        canvas_height := snd (last (sizes es))\<rparr>,
                         gl_viewport := (0, 0, fst (last (sizes es)), snd (last (sizes es)))\<rparr>)"
  using assms
proof (induction es arbitrary: s gl)
  case Nil
  then show ?case by (simp add: sizes_def)
next
  case (Cons e es)
  from Cons.prems have e: "no_canvas (fst e, snd e)" and es: "list_all no_canvas es"
    by simp_all
  note step = task_sized [OF Cons.prems(2) e]
  obtain x s1 where t: "task (fst e) (snd e) s = (x, s1)"
    by (cases "task (fst e) (snd e) s")
  with step(1) have x: "x = None"
    by simp
  show ?case
  proof (cases "size_of e")
    case None
    with step(2) t have "series_context s1 = Some gl"
      by simp
    from Cons.IH [OF es this] None t x show ?thesis
      by (simp add: sizes_Cons)
  next
    case (Some d)
    let ?gl = "gl\<lparr>gl_canvas := (gl_canvas gl)\<lparr>canvas_width := fst d, canvas_height := snd d\<rparr>,
                  gl_viewport := (0, 0, fst d, snd d)\<rparr>"
    from Some step(2) t have "series_context s1 = Some ?gl"
      by simp
    from Cons.IH [OF es this] Some t x show ?thesis
      by (simp add: sizes_Cons)
  qed
qed

lemma task_transfer:
  "task now (Message (transfer_message c)) s = (None, receive_canvas now c s)"
  by (simp add: task_def message_listener_def transfer_message_def)

lemma receive_canvas_fields:
  "series_context (receive_canvas now c s) = getContext c"
  "data (receive_canvas now c s) = data s"
  "frames_requested (receive_canvas now c s) = Suc (frames_requested s)"
  by (simp_all add: receive_canvas_def render_fields Let_def)

text \<open>
  Claim C1, as the code has it. A message hands over a canvas for which
  \<^verbatim>\<open>getContext('webgl')\<close> gives a context; then any events follow that hand over no other
  canvas: messages with a size, frames of the render loop, in any order. If at least one
  size has come, that canvas has the width and the height of the last one, the viewport is
  the rectangle from the origin with that width and height, and no listener has thrown.
\<close>

theorem last_size_wins:
  assumes "webgl_ok c" and "list_all no_canvas es" and "sizes es \<noteq> []"
  shows "series_context (tasks ((now, Message (transfer_message c)) # es) s) =
           Some \<lparr>gl_canvas = c\<lparr>canvas_width := fst (last (sizes es)),
                                 canvas_height := snd (last (sizes es))\<rparr>,
                 gl_viewport = (0, 0, fst (last (sizes es)), snd (last (sizes es)))\<rparr> \<and>
         uncaught ((now, Message (transfer_message c)) # es) s = []"
proof -
  have "series_context (receive_canvas now c s) =
      Some \<lparr>gl_canvas = c, gl_viewport = (0, 0, canvas_width c, canvas_height c)\<rparr>"
    using assms(1) by (simp add: receive_canvas_fields getContext_webgl)
  from tasks_sized [OF assms(2) this] assms(3) show ?thesis
    by (simp add: task_transfer)
qed

text \<open>Claim C1, an instance: the sizes 800 by 600 and 1024 by 768, with a frame between.\<close>

theorem last_size_wins_witness:
  "webgl_ok webgl_canvas \<and>
   list_all no_canvas
     [(1, Message (size_message (800, 600))), (2, AnimationFrame),
      (3, Message (size_message (1024, 768)))] \<and>
   sizes [(1, Message (size_message (800, 600))), (2, AnimationFrame),
          (3, Message (size_message (1024, 768)))] \<noteq> [] \<and>
   series_context
     (tasks ((0, Message (transfer_message webgl_canvas)) #
             [(1, Message (size_message (800, 600))), (2, AnimationFrame),
              (3, Message (size_message (1024, 768)))])
        (awaiting_canvas [])) =
     Some \<lparr>gl_canvas = \<lparr>canvas_id = 1, canvas_width = 1024, canvas_height = 768, webgl_ok = True\<rparr>,
           gl_viewport = (0, 0, 1024, 768)\<rparr>"
proof -
  let ?es = "[(1, Message (size_message (800, 600))), (2, AnimationFrame),
              (3, Message (size_message (1024, 768)))]"
  have h0: "webgl_ok webgl_canvas"
    by (simp add: webgl_canvas_def)
  have h1: "list_all no_canvas ?es"
    by (simp add: no_canvas_def size_message_def)
  have s: "sizes ?es = [(800, 600), (1024, 768)]"
    by (simp add: sizes_Cons size_of_def size_message_def sizes_def)
  then have h2: "sizes ?es \<noteq> []"
    by simp
  have c: "webgl_canvas\<lparr>canvas_width := 1024, canvas_height := 768\<rparr> =
      \<lparr>canvas_id = 1, canvas_width = 1024, canvas_height = 768, webgl_ok = True\<rparr>"
    by (simp add: webgl_canvas_def)
  from last_size_wins [OF h0 h1 h2, of 0 "awaiting_canvas []"]
  show ?thesis
    unfolding s using h0 h1 c by simp
qed

text \<open>
  Claim C1 as it is stated fails: after the transfer of a canvas for which
  \<^verbatim>\<open>getContext('webgl')\<close> gives null, the message with the size 800 by 600 ends with a
  TypeError and the series still has no context: nothing has been resized.
\<close>

theorem size_after_canvas_without_webgl:
  "fst (task 1 (Message (size_message (800, 600)))
          (tasks [(0, Message (transfer_message plain_canvas))] (awaiting_canvas []))) =
     Some TypeError \<and>
   series_context
     (tasks [(0, Message (transfer_message plain_canvas)), (1, Message (size_message (800, 600)))]
        (awaiting_canvas [])) = None"
proof -
  let ?s1 = "receive_canvas 0 plain_canvas (awaiting_canvas [])"
  have c: "series_context ?s1 = None"
    by (simp add: receive_canvas_fields getContext_def plain_canvas_def)
  have t: "task 1 (Message (size_message (800, 600))) ?s1 = (Some TypeError, ?s1)"
    by (simp add: task_def message_listener_def size_message_def resize_no_context [OF c])
  show ?thesis
    by (simp add: task_transfer t c)
qed


section \<open>The canvas is transferred at most once\<close>









section \<open>The number of points\<close>





section \<open>The colours wrap\<close>

lemma index_of_new: "a \<notin> set xs \<Longrightarrow> index_of a xs = None"
  by (induction xs) auto

lemma length_schemeAccent: "length schemeAccent = 8"
  by (simp add: schemeAccent_def)

lemma colorScale_next: "colorScale [0..<k] k = (schemeAccent ! (k mod 8), [0..<Suc k])"
  by (simp add: colorScale_def index_of_new length_schemeAccent)

lemma fill_values_upt:
  "fill_values [k..<k + m] [0..<k] =
     (map (\<lambda>i. webglColor (schemeAccent ! (i mod 8))) [k..<k + m], [0..<k + m])"
proof (induction m arbitrary: k)
  case 0
  show ?case by simp
next
  case (Suc m)
  have "[k..<k + Suc m] = k # [Suc k..<Suc k + m]"
    by (simp add: upt_conv_Cons)
  with Suc [of "Suc k"] show ?case
    by (simp add: colorScale_next)
qed

lemma fillColor_eq: "fillColor n = map (\<lambda>i. webglColor (schemeAccent ! (i mod 8))) [0..<n]"
  using fill_values_upt [of 0 n] by (simp add: fillColor_def)

text \<open>
  Claim C6. The colour scale is called with the indices of the points in ascending order,
  starting with an empty domain. Then the point of index \<open>i\<close> and the point of index \<open>i + 8\<close>
  get the same fill colour, which is the colour of the palette at \<open>i\<close> modulo 8.
\<close>

theorem palette_wraps:
  assumes "i + 8 < n"
  shows "fillColor n ! (i + 8) = fillColor n ! i \<and>
         fillColor n ! i = webglColor (schemeAccent ! (i mod 8))"
  using assms by (simp add: fillColor_eq)

text \<open>Claim C6, an instance: of ten points, the second and the tenth have the colour #beaed4.\<close>

theorem palette_wraps_witness:
  "(1::nat) + 8 < 10 \<and> fillColor 10 ! (1 + 8) = fillColor 10 ! 1 \<and>
   fillColor 10 ! 1 = webglColor (schemeAccent ! (1 mod 8)) \<and>
   fillColor 10 ! 1 = Inr [190 / 255, 174 / 255, 212 / 255, 1]"
proof -
  have h: "(1::nat) + 8 < 10"
    by simp
  have "webglColor (schemeAccent ! (1 mod 8)) = Inr [190 / 255, 174 / 255, 212 / 255, 1]"
    by (simp add: schemeAccent_def webglColor_def d3_color_def hex_byte_def hex_digit_def)
  with palette_wraps [OF h] h show ?thesis
    by simp
qed


section \<open>The point count of the page\<close>

lemma first_worker:
  "worker (snd (measure_listener d (index_js q b cv))) =
     Some (ToNumber (drop 1 (if q = [] then ''?10000'' else q)))"
  by (simp add: measure_listener_def create_worker_def index_js_def Let_def)

lemma ToNumber_10000: "ToNumber ''10000'' = IntNum 10000"
  by (simp add: ToNumber_def trim_def is_space_def nondecimal_literal_def all_digits_def
        is_digit_def dec_digit_def hex_digit_def oct_digit_def bin_digit_def digits_value_def)

lemma worker_hash_10000: "worker_hash (IntNum 10000) = Some (''#'' @ decimal 10000)"
  by (simp add: worker_hash_def ToString_def)

lemma worker_hash_NaN: "worker_hash NaN = Some ''#NaN''"
  by (simp add: worker_hash_def ToString_def)

lemma worker_js_NaN: "worker_js rnd ''#NaN'' = Inr (awaiting_canvas [])"
  by (simp add: worker_js_def generate_data_def parseInt_def is_space_def dec_digit_def
        is_digit_def array_length_def)

lemma worker_js_10000:
  "worker_js rnd (''#'' @ decimal 10000) =
     Inr (awaiting_canvas (map (\<lambda>k. new_point (rnd k)) [0..<10000]))"
  by (simp add: worker_js_def generate_data_decimal)

lemma ToNumber_abc: "ToNumber ''abc'' = NaN"
  by (simp add: ToNumber_def trim_def is_space_def nondecimal_literal_def all_digits_def
        is_digit_def dec_digit_def hex_digit_def oct_digit_def bin_digit_def digits_value_def
        unsigned_decimal_def mantissa_def exponent_def not_e_def)

lemma worker_js_no_digits:
  "parseInt (drop 1 hash) = None \<Longrightarrow> worker_js rnd hash = Inr (awaiting_canvas [])"
  by (simp add: worker_js_def generate_data_def array_length_def)

text \<open>
  Claim C8. With no query the page uses the count 10000, and its worker generates 10000
  points. With a query that is not numeric (\<^verbatim>\<open>Number\<close> gives NaN) the worker is made for
  \<^verbatim>\<open>worker.js#NaN\<close> and generates no points: the length of the data is 0, a number. The
  same holds for the worker alone: with a \<^verbatim>\<open>location.hash\<close> that is empty or in which
  \<^verbatim>\<open>parseInt\<close> finds no number, it generates no points.
\<close>

theorem default_or_no_points:
  "page_worker rnd (snd (measure_listener d (index_js [] b cv))) =
     Some (Inr (awaiting_canvas (map (\<lambda>k. new_point (rnd k)) [0..<10000]))) \<and>
   length (map (\<lambda>k. new_point (rnd k)) [0..<10000]) = 10000 \<and>
   (q \<noteq> [] \<and> ToNumber (drop 1 q) = NaN \<longrightarrow>
      page_worker rnd (snd (measure_listener d (index_js q b cv))) =
        Some (Inr (awaiting_canvas []))) \<and>
   (parseInt (drop 1 hash) = None \<longrightarrow> worker_js rnd hash = Inr (awaiting_canvas []))"
proof (intro conjI impI)
  show "page_worker rnd (snd (measure_listener d (index_js [] b cv))) =
     Some (Inr (awaiting_canvas (map (\<lambda>k. new_point (rnd k)) [0..<10000])))"
    unfolding page_worker_def first_worker
    using ToNumber_10000 worker_hash_10000 worker_js_10000 by simp
  show "length (map (\<lambda>k. new_point (rnd k)) [0..<10000]) = 10000"
    by simp
  assume "q \<noteq> [] \<and> ToNumber (drop 1 q) = NaN"
  then show "page_worker rnd (snd (measure_listener d (index_js q b cv))) =
        Some (Inr (awaiting_canvas []))"
    unfolding page_worker_def first_worker
    using worker_hash_NaN worker_js_NaN by simp
next
  assume "parseInt (drop 1 hash) = None"
  then show "worker_js rnd hash = Inr (awaiting_canvas [])"
    by (rule worker_js_no_digits)
qed

text \<open>Claim C8, an instance: the query \<^verbatim>\<open>?abc\<close>, and the worker with no hash.\<close>

theorem default_or_no_points_witness:
  "''?abc'' \<noteq> [] \<and> ToNumber (drop 1 ''?abc'') = NaN \<and>
   page_worker zero_draws
     (snd (measure_listener (800, 600)
        (index_js ''?abc'' True webgl_canvas))) =
     Some (Inr (awaiting_canvas [])) \<and>
   parseInt (drop 1 []) = None \<and> worker_js zero_draws [] = Inr (awaiting_canvas [])"
proof -
  have h: "''?abc'' \<noteq> [] \<and> ToNumber (drop 1 ''?abc'') = NaN"
    using ToNumber_abc by simp
  have k: "parseInt (drop 1 []) = None"
    by (simp add: parseInt_def)
  from default_or_no_points
    [of zero_draws "(800, 600)" True webgl_canvas "''?abc''" "[]"]
    h k
  show ?thesis
    by blast
qed

end
